theory Spec2Isabelle
  imports Main "HOL-Library.Word"
begin

section \<open>Shared shapes\<close>

text \<open>
  Audio data (a \<^verbatim>\<open>Blob\<close>, a \<^verbatim>\<open>Buffer\<close>) is a list of bytes. A JavaScript value that
  is a string at best and \<^verbatim>\<open>undefined\<close> or \<^verbatim>\<open>null\<close> otherwise is a \<open>string option\<close>.
\<close>

type_synonym bytes = "8 word list"

text \<open>JavaScript truthiness of such a value: only a non-empty string is truthy.\<close>

fun truthy :: "string option \<Rightarrow> bool" where
  "truthy None = False"
| "truthy (Some s) = (s \<noteq> [])"

text \<open>\<^verbatim>\<open>Response.ok\<close>: the status is in the range 200 to 299.\<close>

definition ok :: "nat \<Rightarrow> bool" where
  "ok st = (200 \<le> st \<and> st \<le> 299)"

text \<open>
  What the relay endpoint answers, and what the page reads: a status and a body. The body
  is \<^verbatim>\<open>{ error }\<close>, \<^verbatim>\<open>{ response, audioUrl }\<close>, or something that is not JSON at all
  (only the page can meet the last one, from the framework or a proxy).
\<close>

datatype payload =
    ErrorBody string
  | ResultBody "string option" "string option"
  | NonJson

record http_response =
  status :: nat
  body :: payload


section \<open>The submission relay: \<^verbatim>\<open>POST\<close> of \<^verbatim>\<open>api/process-voice/route.ts\<close>\<close>

text \<open>
  The incoming request: its body is not form data (\<^verbatim>\<open>request.formData()\<close> throws), or it
  is form data whose \<^verbatim>\<open>audio\<close> entry is absent, a plain string, or a file.
\<close>

datatype form_value = FileV bytes | StringV string

datatype request = Malformed | Form "form_value option"

text \<open>
  What \<^verbatim>\<open>fetch\<close> to the processing boundary gives: it rejects, or it resolves to a status
  and a body. The body does not parse as JSON, parses to \<^verbatim>\<open>null\<close>, or parses to an object
  of which the relay reads \<^verbatim>\<open>text_response\<close> and \<^verbatim>\<open>audio_url\<close>.
\<close>

datatype boundary_body =
    BadJson
  | JsonNull
  | Json "string option" "string option"

datatype fetch_result = FetchFailed | Reply nat boundary_body

text \<open>
  The environment of one invocation: \<^verbatim>\<open>os.tmpdir()\<close>, \<^verbatim>\<open>Date.now()\<close>, whether
  \<^verbatim>\<open>fs.writeFileSync\<close> and \<^verbatim>\<open>fs.unlinkSync\<close> succeed, and the boundary as a function of
  the bytes sent to it.
\<close>

record relay_env =
  tmpdir :: string
  now :: nat
  write_ok :: bool
  unlink_ok :: bool
  backend :: "bytes \<Rightarrow> fetch_result"

text \<open>
  The state the relay acts on: the files on disk, the payloads forwarded to the boundary
  so far, and the lines written with \<^verbatim>\<open>console.error\<close>.
\<close>

record server =
  files :: "string \<rightharpoonup> bytes"
  forwarded :: "bytes list"
  console :: "string list"

text \<open>Everything that can be thrown inside the outer \<^verbatim>\<open>try\<close>.\<close>

datatype relay_error =
    FormDataError
  | NotAFile
  | WriteError
  | TransportError
  | BoundaryError nat
  | NullBodyError
  | ParseError

definition digit_char :: "nat \<Rightarrow> char" where
  "digit_char d = char_of (48 + d)"

function decimal :: "nat \<Rightarrow> string" where
  "decimal n = (if n < 10 then [digit_char n] else decimal (n div 10) @ [digit_char (n mod 10)])"
  by pat_completeness auto
termination
  by (relation "measure id") auto

declare decimal.simps [simp del]

text \<open>
  \<^verbatim>\<open>path.join\<close> of Node, POSIX flavour, on two arguments: the non-empty arguments are
  joined with a slash and the result is normalised. Normalising walks the segments
  between slashes: an empty segment and \<^verbatim>\<open>.\<close> are dropped, \<^verbatim>\<open>..\<close> removes the segment
  before it (and is kept only in a relative path that has nothing left to remove), a
  trailing slash survives, and nothing at all becomes \<^verbatim>\<open>.\<close> or \<^verbatim>\<open>/\<close>.
\<close>

fun split_path :: "string \<Rightarrow> string list" where
  "split_path [] = [[]]"
| "split_path (c # cs) =
     (if c = CHR ''/'' then [] # split_path cs
      else (case split_path cs of [] \<Rightarrow> [[c]] | seg # segs \<Rightarrow> (c # seg) # segs))"

definition push_segment :: "bool \<Rightarrow> string list \<Rightarrow> string \<Rightarrow> string list" where
  "push_segment allowAboveRoot res seg =
     (if seg = [] \<or> seg = ''.'' then res
      else if seg = ''..'' then
        (if res \<noteq> [] \<and> last res \<noteq> ''..'' then butlast res
         else if allowAboveRoot then res @ [''..'']
         else res)
      else res @ [seg])"

definition normalizeString :: "string \<Rightarrow> bool \<Rightarrow> string list" where
  "normalizeString path allowAboveRoot = foldl (push_segment allowAboveRoot) [] (split_path path)"

fun unsplit_path :: "string list \<Rightarrow> string" where
  "unsplit_path [] = []"
| "unsplit_path [seg] = seg"
| "unsplit_path (seg # seg' # segs) = seg @ ''/'' @ unsplit_path (seg' # segs)"

definition normalize :: "string \<Rightarrow> string" where
  "normalize path =
     (case path of
        [] \<Rightarrow> ''.''
      | c # cs \<Rightarrow>
          let isAbsolute = (c = CHR ''/'');
              trailingSeparator = (last path = CHR ''/'');
              segs = normalizeString path (\<not> isAbsolute)
          in if segs = [] then
               (if isAbsolute then ''/'' else if trailingSeparator then ''./'' else ''.'')
             else
               (if isAbsolute then ''/'' else []) @ unsplit_path segs @
               (if trailingSeparator then ''/'' else []))"

definition path_join :: "string \<Rightarrow> string \<Rightarrow> string" where
  "path_join a b =
     (if a = [] then normalize b
      else if b = [] then normalize a
      else normalize (a @ ''/'' @ b))"

text \<open>\<^verbatim>\<open>path.join(tempDir, `recording-${Date.now()}.wav`)\<close>\<close>

definition tempFilePath :: "relay_env \<Rightarrow> string" where
  "tempFilePath env = path_join (tmpdir env) (''recording-'' @ decimal (now env) @ ''.wav'')"

definition unlinkSync_caught :: "relay_env \<Rightarrow> server \<Rightarrow> server" where
  "unlinkSync_caught env w =
     (if unlink_ok env then w\<lparr>files := (files w)(tempFilePath env := None)\<rparr>
      else w\<lparr>console := console w @ [''Error deleting temporary file:'']\<rparr>)"

text \<open>
  The body of the outer \<^verbatim>\<open>try\<close>, statement by statement: \<open>Inl\<close> is a throw, \<open>Inr\<close> a
  \<^verbatim>\<open>return\<close>. The state comes back in both cases, as it is at that point.
\<close>

definition relay_try :: "relay_env \<Rightarrow> request \<Rightarrow> server \<Rightarrow> (relay_error + http_response) \<times> server" where
  "relay_try env req w =
     (case req of
        Malformed \<Rightarrow> (Inl FormDataError, w)
      | Form None \<Rightarrow> (Inr \<lparr>status = 400, body = ErrorBody ''No audio file provided''\<rparr>, w)
      | Form (Some (StringV s)) \<Rightarrow>
          (if s = [] then (Inr \<lparr>status = 400, body = ErrorBody ''No audio file provided''\<rparr>, w)
           else (Inl NotAFile, w))
      | Form (Some (FileV buffer)) \<Rightarrow>
          (if \<not> write_ok env then (Inl WriteError, w)
           else
             let w1 = w\<lparr>files := (files w)(tempFilePath env \<mapsto> buffer)\<rparr>;
                 w2 = w1\<lparr>forwarded := forwarded w1 @ [buffer]\<rparr>
             in (case backend env buffer of
                   FetchFailed \<Rightarrow> (Inl TransportError, w2)
                 | Reply st bd \<Rightarrow>
                     (if \<not> ok st then (Inl (BoundaryError st), w2)
                      else (case bd of
                              BadJson \<Rightarrow> (Inl ParseError, w2)
                            | JsonNull \<Rightarrow> (Inl NullBodyError, unlinkSync_caught env w2)
                            | Json text_response audio_url \<Rightarrow>
                                (Inr \<lparr>status = 200, body = ResultBody text_response audio_url\<rparr>,
                                 unlinkSync_caught env w2))))))"

text \<open>The whole handler: the outer \<^verbatim>\<open>catch\<close> turns every throw into one response.\<close>

definition POST :: "relay_env \<Rightarrow> request \<Rightarrow> server \<Rightarrow> http_response \<times> server" where
  "POST env req w =
     (case relay_try env req w of
        (Inr r, w') \<Rightarrow> (r, w')
      | (Inl e, w') \<Rightarrow>
          (\<lparr>status = 500, body = ErrorBody ''Failed to process audio''\<rparr>,
           w'\<lparr>console := console w' @ [''Error processing audio:'']\<rparr>))"


section \<open>The capture client: the page component \<^verbatim>\<open>Home\<close>\<close>

text \<open>
  The component's state (\<^verbatim>\<open>useState\<close>) and refs (\<^verbatim>\<open>useRef\<close>), followed by what the
  component does to the outside: the bodies posted to \<^verbatim>\<open>/api/process-voice\<close>, the
  locators handed to \<^verbatim>\<open>new Audio(...).play()\<close>, the recorders on which \<^verbatim>\<open>stop()\<close> was
  called, the streams whose tracks were stopped, and the lines written with
  \<^verbatim>\<open>console.error\<close>. A recorder is identified by its stream.
\<close>

record client =
  isRecording :: bool
  audioBlob :: "bytes option"
  response :: "string option"
  isLoading :: bool
  error :: "string option"
  mediaRecorderRef :: "nat option"
  audioChunksRef :: "bytes list"
  requests :: "bytes list"
  played :: "string list"
  stopped :: "nat list"
  released :: "nat list"
  log :: "string list"

definition initial :: client where
  "initial = \<lparr>isRecording = False, audioBlob = None, response = Some [], isLoading = False,
     error = None, mediaRecorderRef = None, audioChunksRef = [], requests = [], played = [],
     stopped = [], released = [], log = []\<rparr>"

text \<open>
  \<^verbatim>\<open>getUserMedia\<close> rejects, or resolves to a stream. The platform is taken to support
  recording: \<^verbatim>\<open>new MediaRecorder(stream)\<close> and \<^verbatim>\<open>start()\<close> on a fresh recorder do not throw.
\<close>

datatype mic = Denied | Granted nat

definition startRecording :: "mic \<Rightarrow> client \<Rightarrow> client" where
  "startRecording m s =
     (case m of
        Granted stream \<Rightarrow>
          s\<lparr>mediaRecorderRef := Some stream, audioChunksRef := [], isRecording := True\<rparr>
      | Denied \<Rightarrow>
          s\<lparr>log := log s @ [''Error starting recording:''],
            error := Some ''Microphone access denied. Please allow microphone access.''\<rparr>)"

text \<open>The two handlers installed on the recorder.\<close>

definition ondataavailable :: "bytes \<Rightarrow> client \<Rightarrow> client" where
  "ondataavailable data s = s\<lparr>audioChunksRef := audioChunksRef s @ [data]\<rparr>"

text \<open>\<^verbatim>\<open>new Blob(chunks)\<close> is the concatenation of the chunks.\<close>

definition onstop :: "client \<Rightarrow> client" where
  "onstop s = s\<lparr>audioBlob := Some (concat (audioChunksRef s))\<rparr>"

definition stopRecording :: "client \<Rightarrow> client" where
  "stopRecording s =
     (case mediaRecorderRef s of
        None \<Rightarrow> s
      | Some stream \<Rightarrow>
          (if isRecording s then
             s\<lparr>stopped := stopped s @ [stream], isRecording := False,
               released := released s @ [stream]\<rparr>
           else s))"

text \<open>
  Chunks arrive in capture order, one \<^verbatim>\<open>dataavailable\<close> event each; \<open>deliver\<close> is a run
  of such events. A recorder on which \<^verbatim>\<open>stop()\<close> has been called delivers what it still
  holds and then fires \<^verbatim>\<open>stop\<close>, both in later tasks: after \<open>stopRecording\<close> has returned
  and the page has rendered again. So one capture cycle is \<open>startRecording\<close>, some
  chunks, \<open>stopRecording\<close>, some chunks, \<open>onstop\<close>, as separate steps.
\<close>

definition deliver :: "bytes list \<Rightarrow> client \<Rightarrow> client" where
  "deliver chunks s = foldl (\<lambda>s' c. ondataavailable c s') s chunks"

text \<open>
  What the \<^verbatim>\<open>fetch\<close> of the page gives: it rejects, or it resolves to a response.
\<close>

datatype fetch_outcome = NetworkError | Received http_response

definition submit_failed :: "client \<Rightarrow> client" where
  "submit_failed s =
     s\<lparr>log := log s @ [''Error submitting audio:''],
       error := Some ''Failed to process your request. Please try again.''\<rparr>"

fun play_if_available :: "string option \<Rightarrow> client \<Rightarrow> client" where
  "play_if_available None s = s"
| "play_if_available (Some url) s = (if url = [] then s else s\<lparr>played := played s @ [url]\<rparr>)"

text \<open>
  \<^verbatim>\<open>handleSubmit\<close>, given the outcome of its one \<^verbatim>\<open>await fetch\<close>. A body
  \<^verbatim>\<open>{ error }\<close> under a success status has neither \<^verbatim>\<open>response\<close> nor \<^verbatim>\<open>audioUrl\<close>.
\<close>

definition handleSubmit :: "fetch_outcome \<Rightarrow> client \<Rightarrow> client" where
  "handleSubmit out s =
     (case audioBlob s of
        None \<Rightarrow> s
      | Some blob \<Rightarrow>
          let s1 = s\<lparr>isLoading := True, error := None, requests := requests s @ [blob]\<rparr>;
              s2 = (case out of
                      NetworkError \<Rightarrow> submit_failed s1
                    | Received r \<Rightarrow>
                        (if \<not> ok (status r) then submit_failed s1
                         else (case body r of
                                 NonJson \<Rightarrow> submit_failed s1
                               | ErrorBody e \<Rightarrow> s1\<lparr>response := None\<rparr>
                               | ResultBody text url \<Rightarrow>
                                   play_if_available url (s1\<lparr>response := text\<rparr>))))
          in s2\<lparr>isLoading := False\<rparr>)"

text \<open>
  What the page shows: the submit button (and the capture it would send), the error
  banner and the response panel, each under the condition the markup gives it.
\<close>

definition submit_button :: "client \<Rightarrow> bytes option" where
  "submit_button s = (if isRecording s then None else audioBlob s)"

definition error_banner :: "client \<Rightarrow> string option" where
  "error_banner s = (if truthy (error s) then error s else None)"

definition response_panel :: "client \<Rightarrow> string option" where
  "response_panel s = (if truthy (response s) then response s else None)"


section \<open>Concrete situations\<close>

text \<open>
  Boundaries used in the examples below: one that answers 500, one that cannot be
  reached, one whose success body does not parse, one that answers \<^verbatim>\<open>{}\<close> with status
  200, and one that answers with a text and an audio locator.
\<close>

definition boundary_500 :: "bytes \<Rightarrow> fetch_result" where
  "boundary_500 b = Reply 500 BadJson"

definition boundary_down :: "bytes \<Rightarrow> fetch_result" where
  "boundary_down b = FetchFailed"

definition boundary_unparsable :: "bytes \<Rightarrow> fetch_result" where
  "boundary_unparsable b = Reply 200 BadJson"

definition boundary_empty :: "bytes \<Rightarrow> fetch_result" where
  "boundary_empty b = Reply 200 (Json None None)"

definition boundary_plan :: "bytes \<Rightarrow> fetch_result" where
  "boundary_plan b =
     Reply 200 (Json (Some ''Your current plan includes 10GB of data.'')
                     (Some ''https://example.com/reply.mp3''))"

definition example_env :: "(bytes \<Rightarrow> fetch_result) \<Rightarrow> relay_env" where
  "example_env f = \<lparr>tmpdir = ''/tmp'', now = 7, write_ok = True, unlink_ok = True, backend = f\<rparr>"

definition empty_server :: server where
  "empty_server = \<lparr>files = Map.empty, forwarded = [], console = []\<rparr>"

text \<open>The page after one capture that has not been submitted.\<close>

definition ready :: client where
  "ready = onstop (deliver [[1, 2], [3]] (stopRecording (startRecording (Granted 0) initial)))"


section \<open>Auxiliary facts\<close>

lemma example_env_fields:
  "write_ok (example_env f)" "unlink_ok (example_env f)" "backend (example_env f) = f"
  by (simp_all add: example_env_def)

lemma example_path: "tempFilePath (example_env f) = ''/tmp/recording-7.wav''"
proof -
  have "decimal 7 = ''7''"
    by code_simp
  moreover have "path_join ''/tmp'' ''recording-7.wav'' = ''/tmp/recording-7.wav''"
    by code_simp
  ultimately show ?thesis
    by (simp add: tempFilePath_def example_env_def)
qed

text \<open>The relay on a request that carries a file, with the two state updates merged.\<close>

lemma relay_try_file:
  "relay_try env (Form (Some (FileV buffer))) w =
     (if \<not> write_ok env then (Inl WriteError, w)
      else (case backend env buffer of
              FetchFailed \<Rightarrow>
                (Inl TransportError,
                 w\<lparr>files := (files w)(tempFilePath env \<mapsto> buffer), forwarded := forwarded w @ [buffer]\<rparr>)
            | Reply st bd \<Rightarrow>
                (if \<not> ok st then
                   (Inl (BoundaryError st),
                    w\<lparr>files := (files w)(tempFilePath env \<mapsto> buffer), forwarded := forwarded w @ [buffer]\<rparr>)
                 else (case bd of
                         BadJson \<Rightarrow>
                           (Inl ParseError,
                            w\<lparr>files := (files w)(tempFilePath env \<mapsto> buffer), forwarded := forwarded w @ [buffer]\<rparr>)
                       | JsonNull \<Rightarrow>
                           (Inl NullBodyError,
                            unlinkSync_caught env
                              (w\<lparr>files := (files w)(tempFilePath env \<mapsto> buffer), forwarded := forwarded w @ [buffer]\<rparr>))
                       | Json t a \<Rightarrow>
                           (Inr \<lparr>status = 200, body = ResultBody t a\<rparr>,
                            unlinkSync_caught env
                              (w\<lparr>files := (files w)(tempFilePath env \<mapsto> buffer), forwarded := forwarded w @ [buffer]\<rparr>))))))"
  by (simp add: relay_try_def Let_def split: fetch_result.splits boundary_body.splits)

lemma POST_failure:
  "fst (relay_try env req w) = Inl e \<Longrightarrow>
   fst (POST env req w) = \<lparr>status = 500, body = ErrorBody ''Failed to process audio''\<rparr>"
  by (cases "relay_try env req w") (simp add: POST_def)

lemma POST_failure_files:
  "fst (relay_try env req w) = Inl e \<Longrightarrow>
   files (snd (POST env req w)) = files (snd (relay_try env req w))"
  by (cases "relay_try env req w") (simp add: POST_def)

lemma POST_success:
  "fst (relay_try env req w) = Inr r \<Longrightarrow> POST env req w = (r, snd (relay_try env req w))"
  by (cases "relay_try env req w") (simp add: POST_def)

text \<open>
  Where the temporary file ends up. After a reply that parses to an object it is gone,
  if \<^verbatim>\<open>unlinkSync\<close> succeeds; after a rejected \<^verbatim>\<open>fetch\<close>, a non-success status or an
  unparsable body it is still there, holding the audio.
\<close>

lemma temp_file_removed_on_success:
  assumes "write_ok env" "unlink_ok env" "backend env buffer = Reply st (Json t a)" "ok st"
  shows "files (snd (POST env (Form (Some (FileV buffer))) w)) (tempFilePath env) = None"
  using assms by (simp add: POST_def relay_try_file unlinkSync_caught_def)

lemma temp_file_left_on_boundary_error:
  assumes "write_ok env" "backend env buffer = Reply st bd" "\<not> ok st"
  shows "files (snd (POST env (Form (Some (FileV buffer))) w)) (tempFilePath env) = Some buffer"
  using assms by (simp add: POST_def relay_try_file)

lemma temp_file_left_on_transport_error:
  assumes "write_ok env" "backend env buffer = FetchFailed"
  shows "files (snd (POST env (Form (Some (FileV buffer))) w)) (tempFilePath env) = Some buffer"
  using assms by (simp add: POST_def relay_try_file)

lemma temp_file_left_on_parse_error:
  assumes "write_ok env" "backend env buffer = Reply st BadJson"
  shows "files (snd (POST env (Form (Some (FileV buffer))) w)) (tempFilePath env) = Some buffer"
  using assms by (simp add: POST_def relay_try_file)

text \<open>The page.\<close>

lemma ready_eq:
  "ready = \<lparr>isRecording = False, audioBlob = Some [1, 2, 3], response = Some [],
     isLoading = False, error = None, mediaRecorderRef = Some 0,
     audioChunksRef = [[1, 2], [3]], requests = [], played = [], stopped = [0],
     released = [0], log = []\<rparr>"
  by (simp add: ready_def startRecording_def stopRecording_def deliver_def
      ondataavailable_def onstop_def initial_def)

lemma deliver_eq: "deliver chunks s = s\<lparr>audioChunksRef := audioChunksRef s @ chunks\<rparr>"
  unfolding deliver_def
  by (induction chunks arbitrary: s) (simp_all add: ondataavailable_def)

lemma capture_cycle:
  "onstop (deliver ds (stopRecording (deliver cs (startRecording (Granted r) s)))) =
     s\<lparr>mediaRecorderRef := Some r, stopped := stopped s @ [r], isRecording := False,
       released := released s @ [r], audioChunksRef := cs @ ds,
       audioBlob := Some (concat (cs @ ds))\<rparr>"
  by (simp add: startRecording_def deliver_eq stopRecording_def onstop_def)

text \<open>
  Between the call of \<open>stopRecording\<close> and the recorder's \<^verbatim>\<open>stop\<close> event the page is no
  longer recording and still holds the capture it held before; \<open>onstop\<close> then replaces it.
\<close>

lemma stopRecording_keeps_capture:
  "audioBlob (stopRecording s) = audioBlob s"
  by (simp add: stopRecording_def split: option.splits)

lemma handleSubmit_capture:
  "audioBlob s = Some blob \<Longrightarrow>
   handleSubmit out s =
     (case out of
        NetworkError \<Rightarrow>
          submit_failed (s\<lparr>isLoading := True, error := None, requests := requests s @ [blob]\<rparr>)
      | Received r \<Rightarrow>
          (if \<not> ok (status r) then
             submit_failed (s\<lparr>isLoading := True, error := None, requests := requests s @ [blob]\<rparr>)
           else (case body r of
                   NonJson \<Rightarrow>
                     submit_failed (s\<lparr>isLoading := True, error := None, requests := requests s @ [blob]\<rparr>)
                 | ErrorBody e \<Rightarrow>
                     s\<lparr>isLoading := True, error := None, requests := requests s @ [blob], response := None\<rparr>
                 | ResultBody text url \<Rightarrow>
                     play_if_available url
                       (s\<lparr>isLoading := True, error := None, requests := requests s @ [blob], response := text\<rparr>))))
     \<lparr>isLoading := False\<rparr>"
  by (simp add: handleSubmit_def Let_def)

lemma play_if_available_frame:
  "isLoading (play_if_available url s) = isLoading s"
  "response (play_if_available url s) = response s"
  "error (play_if_available url s) = error s"
  "requests (play_if_available url s) = requests s"
  by (cases url; simp)+

lemma play_if_available_played:
  "played (play_if_available url s) = (if truthy url then played s @ [the url] else played s)"
  by (cases url) simp_all


section \<open>The claims\<close>

text \<open>
  C1. Whenever the relay has written the temporary file, the file is removed after the
  transmission, whatever its outcome; in particular when the boundary answers 500.
  The handler removes the file only on the path where the boundary's reply was a success
  and its body parsed. Evaluated at a boundary that answers 500: the client gets the
  uniform failure response and the file \<^verbatim>\<open>/tmp/recording-7.wav\<close> is still on disk with the
  audio in it.
\<close>

theorem POST_boundary_500_keeps_temp_file:
  "fst (POST (example_env boundary_500) (Form (Some (FileV [1, 2, 3]))) empty_server) =
     \<lparr>status = 500, body = ErrorBody ''Failed to process audio''\<rparr> \<and>
   files (snd (POST (example_env boundary_500) (Form (Some (FileV [1, 2, 3]))) empty_server))
     ''/tmp/recording-7.wav'' = Some [1, 2, 3]"
  by (simp add: POST_def relay_try_file example_env_fields boundary_500_def ok_def
      empty_server_def example_path)


text \<open>
  C2, as stated: for every non-empty capture the relay returns a result whose text is a
  non-empty string, or fails; it never returns a success with both fields empty.
  The handler copies \<^verbatim>\<open>text_response\<close> and \<^verbatim>\<open>audio_url\<close> into its answer without
  looking at them. At a boundary that answers \<^verbatim>\<open>{}\<close> with status 200 the client gets
  status 200 with neither a text nor an audio locator.
\<close>

theorem relay_empty_success_counterexample:
  "fst (POST (example_env boundary_empty) (Form (Some (FileV [1, 2, 3]))) empty_server) =
     \<lparr>status = 200, body = ResultBody None None\<rparr>"
  by (simp add: POST_def relay_try_file example_env_fields boundary_empty_def ok_def)

text \<open>
  C2, amended: provided the boundary keeps its side of the contract (a success reply that
  parses to an object carries a non-empty \<^verbatim>\<open>text_response\<close>), the relay on a request
  with an audio file either answers 200 with exactly the boundary's text, which is
  non-empty, and the boundary's audio locator, or answers with the uniform failure.
\<close>

theorem relay_result_or_failure:
  assumes "\<And>st t a. backend env buffer = Reply st (Json t a) \<Longrightarrow> ok st \<Longrightarrow> truthy t"
  shows "fst (POST env (Form (Some (FileV buffer))) w) =
           \<lparr>status = 500, body = ErrorBody ''Failed to process audio''\<rparr> \<or>
         (\<exists>st t a. backend env buffer = Reply st (Json t a) \<and> ok st \<and> truthy t \<and>
            fst (POST env (Form (Some (FileV buffer))) w) =
              \<lparr>status = 200, body = ResultBody t a\<rparr>)"
proof (cases "fst (relay_try env (Form (Some (FileV buffer))) w)")
  case (Inl e)
  then show ?thesis by (simp add: POST_failure)
next
  case (Inr r)
  then obtain st t a where reply: "backend env buffer = Reply st (Json t a)" "ok st"
    and r: "r = \<lparr>status = 200, body = ResultBody t a\<rparr>"
    by (auto simp: relay_try_file split: if_splits fetch_result.splits boundary_body.splits)
  from reply have "truthy t" by (rule assms)
  with reply r Inr show ?thesis by (simp add: POST_success)
qed

theorem relay_result_or_failure_witness:
  "truthy (Some ''Your current plan includes 10GB of data.'') \<and>
   fst (POST (example_env boundary_plan) (Form (Some (FileV [1, 2, 3]))) empty_server) =
     \<lparr>status = 200,
      body = ResultBody (Some ''Your current plan includes 10GB of data.'')
                        (Some ''https://example.com/reply.mp3'')\<rparr>"
  using relay_result_or_failure [of "example_env boundary_plan" "[1, 2, 3]" empty_server]
  by (simp add: example_env_fields boundary_plan_def POST_def relay_try_file ok_def)

text \<open>
  C3, as stated: a submit with no capture is rejected with a MissingPayloadError before
  any network call, and a validation message is shown to the user.
  On the fresh page \<^verbatim>\<open>handleSubmit\<close> returns at its first line: there is no capture,
  no request is sent, and no message is set or shown.
\<close>

theorem submit_without_capture_counterexample:
  "audioBlob initial = None \<and>
   requests (handleSubmit NetworkError initial) = [] \<and>
   error (handleSubmit NetworkError initial) = None \<and>
   error_banner (handleSubmit NetworkError initial) = None"
  by (simp add: handleSubmit_def initial_def error_banner_def)

text \<open>
  C3, amended: a submit with no capture does nothing at all: no network call, and the
  whole state of the page, its error message included, is as before. The validation
  message exists on the relay only: a request without the \<^verbatim>\<open>audio\<close> entry is answered
  with status 400 and \<^verbatim>\<open>{ error: "No audio file provided" }\<close>, with nothing written to
  disk and nothing sent to the boundary.
\<close>

theorem submit_without_capture:
  "(audioBlob s = None \<longrightarrow> handleSubmit out s = s) \<and>
   POST env (Form None) w =
     (\<lparr>status = 400, body = ErrorBody ''No audio file provided''\<rparr>, w)"
  by (simp add: handleSubmit_def POST_def relay_try_def)

theorem submit_without_capture_witness:
  "audioBlob initial = None \<and>
   handleSubmit NetworkError initial = initial \<and>
   POST (example_env boundary_down) (Form None) empty_server =
     (\<lparr>status = 400, body = ErrorBody ''No audio file provided''\<rparr>, empty_server)"
  using submit_without_capture [of initial NetworkError "example_env boundary_down" empty_server]
  by (simp add: initial_def)

text \<open>
  C4. When the boundary has been reached and answers with a non-success status the relay
  fails with a BoundaryError carrying that status; when the transport to the boundary
  fails it fails with a TransportError. In both cases the client gets
  \<^verbatim>\<open>{ error: string }\<close> with a non-success status (500).
\<close>

theorem relay_failure_kinds:
  assumes "write_ok env"
  shows "(backend env buffer = Reply st bd \<and> \<not> ok st \<longrightarrow>
            fst (relay_try env (Form (Some (FileV buffer))) w) = Inl (BoundaryError st) \<and>
            fst (POST env (Form (Some (FileV buffer))) w) =
              \<lparr>status = 500, body = ErrorBody ''Failed to process audio''\<rparr>) \<and>
         (backend env buffer = FetchFailed \<longrightarrow>
            fst (relay_try env (Form (Some (FileV buffer))) w) = Inl TransportError \<and>
            fst (POST env (Form (Some (FileV buffer))) w) =
              \<lparr>status = 500, body = ErrorBody ''Failed to process audio''\<rparr>) \<and>
         \<not> ok 500"
  using assms by (simp add: POST_def relay_try_file ok_def)

theorem relay_failure_kinds_witness:
  "write_ok (example_env boundary_500) \<and> boundary_500 [1, 2, 3] = Reply 500 BadJson \<and>
   fst (relay_try (example_env boundary_500) (Form (Some (FileV [1, 2, 3]))) empty_server) =
     Inl (BoundaryError 500) \<and>
   fst (POST (example_env boundary_500) (Form (Some (FileV [1, 2, 3]))) empty_server) =
     \<lparr>status = 500, body = ErrorBody ''Failed to process audio''\<rparr> \<and>
   write_ok (example_env boundary_down) \<and> boundary_down [1, 2, 3] = FetchFailed \<and>
   fst (relay_try (example_env boundary_down) (Form (Some (FileV [1, 2, 3]))) empty_server) =
     Inl TransportError \<and>
   fst (POST (example_env boundary_down) (Form (Some (FileV [1, 2, 3]))) empty_server) =
     \<lparr>status = 500, body = ErrorBody ''Failed to process audio''\<rparr>"
  using
    relay_failure_kinds [of "example_env boundary_500" "[1, 2, 3]" 500 BadJson empty_server]
    relay_failure_kinds [of "example_env boundary_down" "[1, 2, 3]" 0 BadJson empty_server]
  by (simp add: example_env_fields boundary_500_def boundary_down_def ok_def)


text \<open>
  C5, as stated: a new recording discards the pending capture, so that after start, stop,
  start, stop only the second capture can be submitted.
  On the page that holds a first capture: starting the second recording leaves that
  capture in place, and once the second recording has been stopped, until the recorder's
  \<^verbatim>\<open>stop\<close> event arrives, the submit button offers the first capture and a submit posts
  it.
\<close>

theorem second_start_keeps_first_counterexample:
  "audioBlob ready = Some [1, 2, 3] \<and>
   audioBlob (startRecording (Granted 1) ready) = Some [1, 2, 3] \<and>
   submit_button (stopRecording (startRecording (Granted 1) ready)) = Some [1, 2, 3] \<and>
   requests (handleSubmit NetworkError (stopRecording (startRecording (Granted 1) ready))) =
     [[1, 2, 3]]"
  by (simp add: ready_eq startRecording_def stopRecording_def submit_button_def
      handleSubmit_capture submit_failed_def)

text \<open>
  C5, amended: the page holds at most one capture (\<open>audioBlob\<close> is one optional value).
  Starting a new recording does not discard a pending capture: it stays held, and is not
  offered for submission while the recording runs. It is replaced when the recorder's
  \<^verbatim>\<open>stop\<close> event of the new recording is handled: after start, stop, start, stop and
  that event, with any chunks delivered during each recording and after each stop, the
  capture held, and offered by the submit button, is the second recording's audio and
  nothing of the first.
\<close>

theorem second_capture_replaces_first:
  "audioBlob (onstop (deliver ds1 (stopRecording (deliver cs1 (startRecording (Granted r1) s))))) =
     Some (concat (cs1 @ ds1)) \<and>
   audioBlob
     (startRecording (Granted r2)
       (onstop (deliver ds1 (stopRecording (deliver cs1 (startRecording (Granted r1) s)))))) =
     Some (concat (cs1 @ ds1)) \<and>
   submit_button
     (deliver cs2 (startRecording (Granted r2)
       (onstop (deliver ds1 (stopRecording (deliver cs1 (startRecording (Granted r1) s))))))) =
     None \<and>
   audioBlob
     (onstop (deliver ds2 (stopRecording (deliver cs2 (startRecording (Granted r2)
       (onstop (deliver ds1 (stopRecording (deliver cs1 (startRecording (Granted r1) s)))))))))) =
     Some (concat (cs2 @ ds2)) \<and>
   submit_button
     (onstop (deliver ds2 (stopRecording (deliver cs2 (startRecording (Granted r2)
       (onstop (deliver ds1 (stopRecording (deliver cs1 (startRecording (Granted r1) s)))))))))) =
     Some (concat (cs2 @ ds2))"
proof -
  let ?first = "onstop (deliver ds1 (stopRecording (deliver cs1 (startRecording (Granted r1) s))))"
  have held: "audioBlob ?first = Some (concat (cs1 @ ds1))"
    by (simp add: capture_cycle)
  have kept: "audioBlob (startRecording (Granted r2) ?first) = Some (concat (cs1 @ ds1))"
    unfolding capture_cycle by (simp add: startRecording_def)
  have hidden: "submit_button (deliver cs2 (startRecording (Granted r2) ?first)) = None"
    by (simp add: deliver_eq startRecording_def submit_button_def)
  have replaced:
    "audioBlob (onstop (deliver ds2 (stopRecording (deliver cs2 (startRecording (Granted r2) ?first)))))
       = Some (concat (cs2 @ ds2))"
    by (simp add: capture_cycle [of ds2 cs2 r2])
  have offered:
    "submit_button (onstop (deliver ds2 (stopRecording (deliver cs2 (startRecording (Granted r2) ?first)))))
       = Some (concat (cs2 @ ds2))"
    by (simp add: capture_cycle [of ds2 cs2 r2] submit_button_def)
  from held kept hidden replaced offered show ?thesis
    by (intro conjI)
qed

text \<open>
  C6. When a submission succeeds, the text of the result becomes the page's response and
  is what the response panel shows; playback is started exactly once, on the result's
  audio locator, when the result has one, and not at all when it has none (an empty
  locator counts as none).
\<close>

theorem successful_result_rendered_and_played:
  assumes "audioBlob s = Some blob" and "ok st"
  shows "response (handleSubmit (Received \<lparr>status = st, body = ResultBody text url\<rparr>) s) = text \<and>
         (truthy text \<longrightarrow>
            response_panel (handleSubmit (Received \<lparr>status = st, body = ResultBody text url\<rparr>) s)
              = text) \<and>
         (\<forall>u. url = Some u \<and> u \<noteq> [] \<longrightarrow>
            played (handleSubmit (Received \<lparr>status = st, body = ResultBody text url\<rparr>) s)
              = played s @ [u]) \<and>
         (\<not> truthy url \<longrightarrow>
            played (handleSubmit (Received \<lparr>status = st, body = ResultBody text url\<rparr>) s)
              = played s) \<and>
         error (handleSubmit (Received \<lparr>status = st, body = ResultBody text url\<rparr>) s) = None"
  using assms
  by (simp add: handleSubmit_capture response_panel_def play_if_available_frame
      play_if_available_played)

theorem successful_result_rendered_and_played_witness:
  "audioBlob ready = Some [1, 2, 3] \<and> ok 200 \<and>
   response_panel
     (handleSubmit
       (Received \<lparr>status = 200,
                  body = ResultBody (Some ''Your current plan includes 10GB of data.'')
                                    (Some ''https://example.com/reply.mp3'')\<rparr>) ready) =
     Some ''Your current plan includes 10GB of data.'' \<and>
   played
     (handleSubmit
       (Received \<lparr>status = 200,
                  body = ResultBody (Some ''Your current plan includes 10GB of data.'')
                                    (Some ''https://example.com/reply.mp3'')\<rparr>) ready) =
     [''https://example.com/reply.mp3''] \<and>
   played
     (handleSubmit
       (Received \<lparr>status = 200,
                  body = ResultBody (Some ''Your current plan includes 10GB of data.'') None\<rparr>)
       ready) = []"
  using
    successful_result_rendered_and_played [of ready "[1, 2, 3]" 200
      "Some ''Your current plan includes 10GB of data.''" "Some ''https://example.com/reply.mp3''"]
    successful_result_rendered_and_played [of ready "[1, 2, 3]" 200
      "Some ''Your current plan includes 10GB of data.''" None]
  by (simp add: ready_eq ok_def)

text \<open>
  C7. While no recording is in progress, stopping is a no-op: the recording flag, the
  buffered chunks, the pending capture, the response and the error, and everything else
  of the page, are unchanged; \<^verbatim>\<open>stop()\<close> is called on no recorder, so no recorder event
  follows.
\<close>

theorem stop_when_not_recording:
  "\<not> isRecording s \<Longrightarrow> stopRecording s = s \<and> stopped (stopRecording s) = stopped s"
  by (simp add: stopRecording_def split: option.splits)

theorem stop_when_not_recording_witness:
  "\<not> isRecording ready \<and> stopRecording ready = ready \<and>
   stopped (stopRecording ready) = stopped ready"
  using stop_when_not_recording [of ready]
  by (simp add: ready_eq)

text \<open>
  C8. Starting a capture: when microphone access is denied, the error message is set and
  shown and the recording flag, the recorder and the buffer stay as they were; when it
  is granted, the buffer starts empty, the recording flag is set, and every chunk
  delivered from then on is appended to the buffer in order.
\<close>

theorem startRecording_outcomes:
  "error (startRecording Denied s) =
     Some ''Microphone access denied. Please allow microphone access.'' \<and>
   error_banner (startRecording Denied s) =
     Some ''Microphone access denied. Please allow microphone access.'' \<and>
   isRecording (startRecording Denied s) = isRecording s \<and>
   mediaRecorderRef (startRecording Denied s) = mediaRecorderRef s \<and>
   audioChunksRef (startRecording Denied s) = audioChunksRef s \<and>
   audioBlob (startRecording Denied s) = audioBlob s \<and>
   isRecording (startRecording (Granted stream) s) \<and>
   mediaRecorderRef (startRecording (Granted stream) s) = Some stream \<and>
   audioChunksRef (startRecording (Granted stream) s) = [] \<and>
   isRecording (deliver chunks (startRecording (Granted stream) s)) \<and>
   audioChunksRef (deliver chunks (startRecording (Granted stream) s)) = chunks"
  by (simp add: startRecording_def error_banner_def deliver_eq)

text \<open>
  C9. Any two invocations of the relay that fail on a request carrying an audio file,
  whatever made each of them fail (a non-success status, a failed transport, a body that
  does not parse, or anything else thrown inside the handler), give the client the same
  response: status 500 with \<^verbatim>\<open>{ error: "Failed to process audio" }\<close>.
\<close>

theorem relay_failures_indistinguishable:
  assumes "fst (relay_try env1 (Form (Some (FileV b1))) w1) = Inl e1"
    and "fst (relay_try env2 (Form (Some (FileV b2))) w2) = Inl e2"
  shows "fst (POST env1 (Form (Some (FileV b1))) w1) = fst (POST env2 (Form (Some (FileV b2))) w2) \<and>
         fst (POST env1 (Form (Some (FileV b1))) w1) =
           \<lparr>status = 500, body = ErrorBody ''Failed to process audio''\<rparr>"
  using assms by (simp add: POST_failure)

theorem relay_failures_indistinguishable_witness:
  "fst (relay_try (example_env boundary_500) (Form (Some (FileV [1, 2, 3]))) empty_server) =
     Inl (BoundaryError 500) \<and>
   fst (relay_try (example_env boundary_down) (Form (Some (FileV [4]))) empty_server) =
     Inl TransportError \<and>
   fst (relay_try (example_env boundary_unparsable) (Form (Some (FileV [4]))) empty_server) =
     Inl ParseError \<and>
   fst (POST (example_env boundary_500) (Form (Some (FileV [1, 2, 3]))) empty_server) =
     fst (POST (example_env boundary_down) (Form (Some (FileV [4]))) empty_server) \<and>
   fst (POST (example_env boundary_unparsable) (Form (Some (FileV [4]))) empty_server) =
     fst (POST (example_env boundary_down) (Form (Some (FileV [4]))) empty_server) \<and>
   fst (POST (example_env boundary_500) (Form (Some (FileV [1, 2, 3]))) empty_server) =
     \<lparr>status = 500, body = ErrorBody ''Failed to process audio''\<rparr>"
proof -
  have a: "fst (relay_try (example_env boundary_500) (Form (Some (FileV [1, 2, 3]))) empty_server) =
      Inl (BoundaryError 500)"
    by (simp add: relay_try_file example_env_fields boundary_500_def ok_def)
  have b: "fst (relay_try (example_env boundary_down) (Form (Some (FileV [4]))) empty_server) =
      Inl TransportError"
    by (simp add: relay_try_file example_env_fields boundary_down_def)
  have c: "fst (relay_try (example_env boundary_unparsable) (Form (Some (FileV [4]))) empty_server) =
      Inl ParseError"
    by (simp add: relay_try_file example_env_fields boundary_unparsable_def ok_def)
  show ?thesis
    using a b c relay_failures_indistinguishable [OF a b] relay_failures_indistinguishable [OF c b]
    by auto
qed

text \<open>
  C10. A submission started with a capture present ends with the loading flag cleared,
  whatever the outcome of the request: a result, a non-success status, a body that does
  not parse, or a network failure.
\<close>

theorem submit_clears_loading:
  "audioBlob s = Some blob \<Longrightarrow> isLoading (handleSubmit out s) = False"
  by (simp add: handleSubmit_capture)

theorem submit_clears_loading_witness:
  "audioBlob ready = Some [1, 2, 3] \<and>
   isLoading (handleSubmit NetworkError ready) = False \<and>
   isLoading
     (handleSubmit
       (Received \<lparr>status = 200,
                  body = ResultBody (Some ''Your current plan includes 10GB of data.'') None\<rparr>)
       ready) = False"
  using submit_clears_loading [of ready "[1, 2, 3]" NetworkError]
    submit_clears_loading [of ready "[1, 2, 3]"
      "Received \<lparr>status = 200,
                 body = ResultBody (Some ''Your current plan includes 10GB of data.'') None\<rparr>"]
  by (simp add: ready_eq)

end
